theory Spec2Isabelle
  imports Complex_Main "HOL-Library.Word"
begin

section \<open>Quaternion operators (Quaternion.inl)\<close>

text \<open>
  \<^verbatim>\<open>Quaternion.inl\<close> defines \<^verbatim>\<open>operator*\<close> and \<^verbatim>\<open>operator*=\<close> through the member
  function \<^verbatim>\<open>multiply(const Quaternion& q)\<close>, which is declared in \<^verbatim>\<open>Quaternion.h\<close> and
  is not part of the sources at hand. Both operators take their argument by reference, so
  the receiver and the argument may be one object. Quaternion objects therefore live in a
  store, addressed by \<open>addr\<close>; the type \<open>'q\<close> of their values is left open.
\<close>

type_synonym addr = nat

type_synonym 'q store = "addr \<Rightarrow> 'q"

text \<open>
  The missing \<^verbatim>\<open>multiply\<close> is a parameter: \<open>f a b\<close> is the value the receiver holds after
  \<^verbatim>\<open>multiply(q)\<close> when it held \<open>a\<close> and \<open>q\<close> held \<open>b\<close> on entry. The call writes to the
  receiver and to nothing else.
\<close>

definition multiply :: "('q \<Rightarrow> 'q \<Rightarrow> 'q) \<Rightarrow> addr \<Rightarrow> addr \<Rightarrow> 'q store \<Rightarrow> 'q store" where
  "multiply f this q s = s(this := f (s this) (s q))"

text \<open>
  \<^verbatim>\<open>Quaternion result(*this); result.multiply(q); return result;\<close>
  The local \<^verbatim>\<open>result\<close> sits at the address \<open>result\<close>; the operator returns its value
  together with the store it leaves behind.
\<close>

definition operator_mul ::
  "('q \<Rightarrow> 'q \<Rightarrow> 'q) \<Rightarrow> addr \<Rightarrow> addr \<Rightarrow> addr \<Rightarrow> 'q store \<Rightarrow> 'q \<times> 'q store" where
  "operator_mul f result this q s =
     (let s1 = s(result := s this);
          s2 = multiply f result q s1
      in (s2 result, s2))"

text \<open>
  \<^verbatim>\<open>multiply(q); return *this;\<close>
  The operator returns a reference, here the address of the receiver.
\<close>

definition operator_mul_assign ::
  "('q \<Rightarrow> 'q \<Rightarrow> 'q) \<Rightarrow> addr \<Rightarrow> addr \<Rightarrow> 'q store \<Rightarrow> addr \<times> 'q store" where
  "operator_mul_assign f this q s = (this, multiply f this q s)"

section \<open>Theorems\<close>

subsection \<open>Quaternion operators\<close>

lemma multiply_receiver: "multiply f this q s this = f (s this) (s q)"
  by (simp add: multiply_def)

lemma multiply_frame: "p \<noteq> this \<Longrightarrow> multiply f this q s p = s p"
  by (simp add: multiply_def)

text \<open>
  Claim C10. For quaternions \<open>a\<close> (at \<open>this\<close>) and \<open>b\<close> (at \<open>q\<close>, possibly the same object),
  \<open>a * b\<close> leaves every object other than its own local unchanged, \<open>a\<close> included, and
  returns the product of the two values; \<open>a *= b\<close> returns a reference to \<open>a\<close>, stores in
  \<open>a\<close> exactly the value \<open>a * b\<close> returns from the same store, and changes no other object.
  The local of \<open>operator*\<close> is a fresh object, distinct from receiver and argument.
\<close>

theorem operator_mul_agrees_with_mul_assign:
  assumes "result \<noteq> this" and "result \<noteq> q"
  shows "snd (operator_mul f result this q s) this = s this
       \<and> (\<forall>p. p \<noteq> result \<longrightarrow> snd (operator_mul f result this q s) p = s p)
       \<and> fst (operator_mul f result this q s) = f (s this) (s q)
       \<and> fst (operator_mul_assign f this q s) = this
       \<and> snd (operator_mul_assign f this q s) this = fst (operator_mul f result this q s)
       \<and> (\<forall>p. p \<noteq> this \<longrightarrow> snd (operator_mul_assign f this q s) p = s p)"
  using assms
  by (simp add: operator_mul_def operator_mul_assign_def multiply_def Let_def)

theorem operator_mul_agrees_with_mul_assign_witness:
  "(2::addr) \<noteq> 0 \<and> (2::addr) \<noteq> 1
   \<and> snd (operator_mul (\<lambda>a b. a * b + (1::int)) 2 0 1 (\<lambda>p. int p + 3)) 0 = 3
   \<and> fst (operator_mul (\<lambda>a b. a * b + (1::int)) 2 0 1 (\<lambda>p. int p + 3)) = 13
   \<and> snd (operator_mul_assign (\<lambda>a b. a * b + (1::int)) 0 1 (\<lambda>p. int p + 3)) 0 = 13
   \<and> snd (operator_mul_assign (\<lambda>a b. a * b + (1::int)) 0 0 (\<lambda>p. int p + 3)) 0
       = fst (operator_mul (\<lambda>a b. a * b + (1::int)) 2 0 0 (\<lambda>p. int p + 3))"
  using operator_mul_agrees_with_mul_assign
          [of 2 0 1 "\<lambda>a b. a * b + (1::int)" "\<lambda>p. int p + 3"]
        operator_mul_agrees_with_mul_assign
          [of 2 0 0 "\<lambda>a b. a * b + (1::int)" "\<lambda>p. int p + 3"]
  by simp

end
